theory Spec2Isabelle
  imports Complex_Main "HOL-Library.Word"
begin

unbundle bit_operations_syntax

section \<open>Data model of \<open>atc_ble/parser.py\<close>\<close>

type_synonym byte = "8 word"
type_synonym bytes = "byte list"

text \<open>
  The exceptions that the parser can let escape: \<open>bytes.fromhex\<close> and \<open>AES.new\<close> raise
  \<open>ValueError\<close>, an index past the end of a string or of a bytes object raises
  \<open>IndexError\<close>, \<open>int.to_bytes\<close> raises \<open>OverflowError\<close>, and \<open>struct.unpack\<close> raises
  \<open>struct.error\<close> on a buffer of the wrong size.
\<close>

datatype exn = ValueError | IndexError | OverflowError | StructError

text \<open>
  A sensor value is a Python \<open>int\<close> or the \<open>float\<close> produced by a true division. A float is
  represented by the exact quotient that the division rounds to the nearest double, so that
  \<open>2649 / 100\<close> is the value Python prints as \<open>26.49\<close>.
\<close>

datatype pynum = PyInt int | PyFloat rat

datatype sensor =
    TEMPERATURE__CELSIUS
  | HUMIDITY__PERCENTAGE
  | VOLTAGE__ELECTRIC_POTENTIAL_VOLT
  | BATTERY__PERCENTAGE

text \<open>\<open>BluetoothServiceInfo\<close>: the fields of the advertisement that the parser reads.\<close>

record service_info =
  name :: string
  address :: string
  rssi :: int
  service_data :: "(string \<times> bytes) list"

text \<open>
  The attributes of an \<open>ATCBluetoothDeviceData\<close> object. The first six are set by
  \<open>__init__\<close>. \<open>encrypted\<close> is the attribute that the assignment \<open>self.encrypted = True\<close> of
  \<open>_parse_atc\<close> creates; it does not exist (\<open>None\<close>) before. The remaining fields record what
  the calls into the base class \<open>BluetoothData\<close> store: \<open>set_device_manufacturer\<close>,
  \<open>set_device_type\<close>, \<open>set_title\<close>, \<open>set_device_name\<close>, \<open>set_device_sw_version\<close> and
  \<open>update_predefined_sensor\<close>.
\<close>

record session =
  bindkey :: "bytes option"
  is_encrypted :: bool
  mac_known :: bool
  bindkey_verified :: bool
  pending :: bool
  last_service_info :: "service_info option"
  encrypted :: "bool option"
  device_manufacturer :: "string option"
  device_type :: "string option"
  title :: "string option"
  device_name :: "string option"
  device_sw_version :: "string option"
  sensor_values :: "sensor \<rightharpoonup> pynum"

text \<open>
  The AES-CCM primitive of the \<open>Cryptodome\<close> library is a parameter of the model. Applied to
  the key, the nonce, \<open>mac_len\<close>, the additional authenticated data, the ciphertext and the
  tag, it stands for the three calls \<open>AES.new(key, AES.MODE_CCM, nonce=nonce, mac_len=4)\<close>,
  \<open>cipher.update(aad)\<close> and \<open>cipher.decrypt_and_verify(cipherpayload, token)\<close>:
  \<^item> \<open>Plaintext p\<close>: the tag verifies and \<open>p\<close> is returned;
  \<^item> \<open>NoPayload\<close>: \<open>decrypt_and_verify\<close> returns \<open>None\<close>;
  \<^item> \<open>MacCheckFailed\<close>: \<open>decrypt_and_verify\<close> raises \<open>ValueError\<close> (inside the \<open>try\<close>);
  \<^item> \<open>NewRejected\<close>: \<open>AES.new\<close> raises \<open>ValueError\<close> (outside the \<open>try\<close>), as it does for
    a nonce whose length is not between 7 and 13.
\<close>

datatype ccm_result = Plaintext bytes | NoPayload | MacCheckFailed | NewRejected

type_synonym ccm = "bytes \<Rightarrow> bytes \<Rightarrow> nat \<Rightarrow> bytes \<Rightarrow> bytes \<Rightarrow> bytes \<Rightarrow> ccm_result"

section \<open>Python built-ins used by the parser\<close>

text \<open>\<open>bytes.fromhex\<close>: ASCII whitespace is skipped between two-digit pairs; anything else
  that is not a pair of hexadecimal digits raises \<open>ValueError\<close> (\<open>None\<close>). An address is a
  string of single-byte characters, so that its length is the number of its characters.\<close>

definition py_isspace :: "char \<Rightarrow> bool" where
  "py_isspace c = (of_char c \<in> {9, 10, 11, 12, 13, 32 :: nat})"

definition hex_digit :: "char \<Rightarrow> nat option" where
  "hex_digit c =
     (let n = (of_char c :: nat) in
      if 48 \<le> n \<and> n \<le> 57 then Some (n - 48)
      else if 97 \<le> n \<and> n \<le> 102 then Some (n - 87)
      else if 65 \<le> n \<and> n \<le> 70 then Some (n - 55)
      else None)"

fun fromhex :: "string \<Rightarrow> bytes option" where
  "fromhex [] = Some []"
| "fromhex [c] = (if py_isspace c then Some [] else None)"
| "fromhex (c # d # cs) =
     (if py_isspace c then fromhex (d # cs)
      else case hex_digit c of
             None \<Rightarrow> None
           | Some hi \<Rightarrow>
               (case hex_digit d of
                  None \<Rightarrow> None
                | Some lo \<Rightarrow>
                    (case fromhex cs of
                       None \<Rightarrow> None
                     | Some bs \<Rightarrow> Some (of_nat (16 * hi + lo) # bs))))"

text \<open>\<open>str.replace(":", "")\<close>.\<close>

definition remove_colons :: "string \<Rightarrow> string" where
  "remove_colons a = filter (\<lambda>c. c \<noteq> CHR '':'') a"

text \<open>The 16-bit fields of \<open>struct.unpack\<close>: \<open><\<close> is little-endian, \<open>>\<close> big-endian,
  \<open>h\<close> signed, \<open>H\<close> unsigned, \<open>B\<close> an unsigned byte.\<close>

definition word16 :: "byte \<Rightarrow> byte \<Rightarrow> 16 word" where
  "word16 hi lo = push_bit 8 (ucast hi) OR ucast lo"

fun unpack_lt_hHHBBB :: "bytes \<Rightarrow> (int \<times> int \<times> int \<times> int \<times> int \<times> int) option" where
  "unpack_lt_hHHBBB [t0, t1, h0, h1, v0, v1, b, p, g] =
     Some (sint (word16 t1 t0), uint (word16 h1 h0), uint (word16 v1 v0), uint b, uint p, uint g)"
| "unpack_lt_hHHBBB _ = None"

fun unpack_gt_hBBHB :: "bytes \<Rightarrow> (int \<times> int \<times> int \<times> int \<times> int) option" where
  "unpack_gt_hBBHB [t0, t1, h, b, v0, v1, p] =
     Some (sint (word16 t0 t1), uint h, uint b, uint (word16 v0 v1), uint p)"
| "unpack_gt_hBBHB _ = None"

fun unpack_lt_hHBB :: "bytes \<Rightarrow> (int \<times> int \<times> int \<times> int) option" where
  "unpack_lt_hHBB [t0, t1, h0, h1, b, g] =
     Some (sint (word16 t1 t0), uint (word16 h1 h0), uint b, uint g)"
| "unpack_lt_hHBB _ = None"

text \<open>Indexing a bytes object, \<open>decrypted_data[i]\<close>: an \<open>int\<close>, or \<open>IndexError\<close>.\<close>

definition byte_at :: "bytes \<Rightarrow> nat \<Rightarrow> exn + byte" where
  "byte_at bs i = (if i < length bs then Inr (bs ! i) else Inl IndexError)"

section \<open>The parser\<close>

text \<open>\<open>ATCBluetoothDeviceData.__init__\<close>, on a platform whose \<open>sys.platform\<close> is the given
  string.\<close>

definition init :: "string \<Rightarrow> bytes option \<Rightarrow> session" where
  "init sys_platform key =
     \<lparr> bindkey = key,
       is_encrypted = False,
       mac_known = (sys_platform \<noteq> ''darwin''),
       bindkey_verified = False,
       pending = True,
       last_service_info = None,
       encrypted = None,
       device_manufacturer = None,
       device_type = None,
       title = None,
       device_name = None,
       device_sw_version = None,
       sensor_values = Map.empty \<rparr>"

definition update_predefined_sensor :: "session \<Rightarrow> sensor \<Rightarrow> pynum \<Rightarrow> session" where
  "update_predefined_sensor s k v = s\<lparr>sensor_values := (sensor_values s)(k \<mapsto> v)\<rparr>"

text \<open>\<open>_decrypt_atc\<close>. The result is the returned value (\<open>None\<close> or the plaintext) or the
  exception raised, with the session as the call leaves it.\<close>

definition decrypt_atc :: "ccm \<Rightarrow> session \<Rightarrow> bytes \<Rightarrow> bytes \<Rightarrow> (exn + bytes option) \<times> session" where
  "decrypt_atc aead s data atc_mac =
     (case bindkey s of
        None \<Rightarrow> (Inr None, s\<lparr>bindkey_verified := False\<rparr>)
      | Some key \<Rightarrow>
          if key = [] then (Inr None, s\<lparr>bindkey_verified := False\<rparr>)
          else if length key \<noteq> 16 then (Inr None, s\<lparr>bindkey_verified := False\<rparr>)
          else if 255 < length data + 3 then (Inl OverflowError, s)
          else
            (let len_byte = [of_nat (length data + 3)];
                 uuid_bytes = [0x16, 0x1a, 0x18];
                 nonce = rev atc_mac @ len_byte @ uuid_bytes @ take 1 data;
                 cipherpayload = drop 1 (take (length data - 4) data);
                 aad = [0x11];
                 token = drop (length data - 4) data
             in case aead key nonce 4 aad cipherpayload token of
                  NewRejected \<Rightarrow> (Inl ValueError, s)
                | MacCheckFailed \<Rightarrow> (Inr None, s)
                | NoPayload \<Rightarrow> (Inr None, s\<lparr>bindkey_verified := False\<rparr>)
                | Plaintext decrypted_payload \<Rightarrow>
                    (Inr (Some decrypted_payload), s\<lparr>bindkey_verified := True\<rparr>)))"

text \<open>Lines 85 to 90 of \<open>_parse_atc\<close>: the transport address as bytes. The test
  \<open>len(mac_readable) != 17 and mac_readable[2] != ":"\<close> reads index 2 only when the length
  is not 17.\<close>

definition source_mac_of :: "string \<Rightarrow> exn + bytes" where
  "source_mac_of addr =
     (case (if length addr \<noteq> 17
            then (if 2 < length addr then Inr (addr ! 2 \<noteq> CHR '':'') else Inl IndexError)
            else Inr False) of
        Inl e \<Rightarrow> Inl e
      | Inr is_uuid \<Rightarrow>
          (let mac_readable = (if is_uuid then ''00:00:00:00:00:00'' else addr)
           in case fromhex (remove_colons mac_readable) of
                None \<Rightarrow> Inl ValueError
              | Some b \<Rightarrow> Inr b))"

text \<open>Lines 224 to 228 of \<open>_parse_atc\<close>, reached by every branch that decoded a payload.\<close>

definition finish :: "session \<Rightarrow> service_info \<Rightarrow> string \<Rightarrow> string \<Rightarrow> (exn + bool) \<times> session" where
  "finish s info nm firmware =
     (let identifier = address info;
          t = nm @ '' ('' @ identifier @ '')''
      in (Inr True, s\<lparr>title := Some t, device_name := Some t, device_sw_version := Some firmware\<rparr>))"

text \<open>
  \<open>_parse_atc\<close> returns a value or raises an exception, and leaves the session as the call
  has changed it. Its four branches are given one definition each, in the order of the
  source; \<open>parse_atc\<close> below is the function itself.

  Lines 93 to 122, a payload of 15 bytes (pvvx format without encryption).
\<close>

definition parse_pvvx ::
  "string \<Rightarrow> session \<Rightarrow> service_info \<Rightarrow> string \<Rightarrow> bytes \<Rightarrow> bytes \<Rightarrow> (exn + bool) \<times> session" where
  "parse_pvvx sys_platform s info nm data source_mac0 =
     (let atc_mac_reversed = take 6 data;
          atc_mac = rev atc_mac_reversed;
          source_mac = (if sys_platform = ''darwin'' then atc_mac else source_mac0)
      in if sys_platform \<noteq> ''darwin'' \<and> atc_mac \<noteq> source_mac then (Inr False, s)
         else case unpack_lt_hHHBBB (drop 6 data) of
                None \<Rightarrow> (Inl StructError, s)
              | Some (temp, hum, volt, bat, packet_id, trg) \<Rightarrow>
                  (let s1 = update_predefined_sensor s TEMPERATURE__CELSIUS
                              (PyFloat (of_int temp / 100));
                       s2 = update_predefined_sensor s1 HUMIDITY__PERCENTAGE
                              (PyFloat (of_int hum / 100));
                       s3 = update_predefined_sensor s2 VOLTAGE__ELECTRIC_POTENTIAL_VOLT
                              (PyFloat (of_int volt / 1000));
                       s4 = update_predefined_sensor s3 BATTERY__PERCENTAGE (PyInt bat)
                   in finish s4 info nm ''ATC (pvvx)''))"

text \<open>Lines 131 to 155, a payload of 13 bytes (atc1441 format without encryption).\<close>

definition parse_atc1441 ::
  "string \<Rightarrow> session \<Rightarrow> service_info \<Rightarrow> string \<Rightarrow> bytes \<Rightarrow> bytes \<Rightarrow> (exn + bool) \<times> session" where
  "parse_atc1441 sys_platform s info nm data source_mac0 =
     (let atc_mac = take 6 data;
          source_mac = (if sys_platform = ''darwin'' then atc_mac else source_mac0)
      in if sys_platform \<noteq> ''darwin'' \<and> atc_mac \<noteq> source_mac then (Inr False, s)
         else case unpack_gt_hBBHB (drop 6 data) of
                None \<Rightarrow> (Inl StructError, s)
              | Some (temp, hum, bat, volt, packet_id) \<Rightarrow>
                  (let s1 = update_predefined_sensor s TEMPERATURE__CELSIUS
                              (PyFloat (of_int temp / 10));
                       s2 = update_predefined_sensor s1 HUMIDITY__PERCENTAGE (PyInt hum);
                       s3 = update_predefined_sensor s2 VOLTAGE__ELECTRIC_POTENTIAL_VOLT
                              (PyFloat (of_int volt / 1000));
                       s4 = update_predefined_sensor s3 BATTERY__PERCENTAGE (PyInt bat)
                   in finish s4 info nm ''ATC (atc1441)''))"

text \<open>Lines 158 to 183, a payload of 11 bytes (pvvx format with encryption).\<close>

definition parse_pvvx_encrypted ::
  "string \<Rightarrow> ccm \<Rightarrow> session \<Rightarrow> service_info \<Rightarrow> string \<Rightarrow> bytes \<Rightarrow> bytes \<Rightarrow> (exn + bool) \<times> session" where
  "parse_pvvx_encrypted sys_platform aead s info nm data source_mac =
     (if sys_platform = ''darwin'' then (Inr False, s)
      else
        (let s1 = s\<lparr>mac_known := True\<rparr>;
             atc_mac = source_mac;
             s2 = s1\<lparr>encrypted := Some True\<rparr>
         in case decrypt_atc aead s2 data atc_mac of
              (Inl e, s3) \<Rightarrow> (Inl e, s3)
            | (Inr None, s3) \<Rightarrow> (Inr False, s3)
            | (Inr (Some decrypted_data), s3) \<Rightarrow>
                (case unpack_lt_hHBB decrypted_data of
                   None \<Rightarrow> (Inl StructError, s3)
                 | Some (temp, hum, bat, trg) \<Rightarrow>
                     (let s4 = update_predefined_sensor s3 TEMPERATURE__CELSIUS
                                 (PyFloat (of_int temp / 100));
                          s5 = update_predefined_sensor s4 HUMIDITY__PERCENTAGE
                                 (PyFloat (of_int hum / 100));
                          s6 = update_predefined_sensor s5 BATTERY__PERCENTAGE (PyInt bat)
                      in finish s6 info nm ''ATC (pvvx encrypted)''))))"

text \<open>Lines 192 to 218, a payload of 8 bytes (atc1441 format with encryption). The
  plaintext is read byte by byte.\<close>

definition parse_atc1441_encrypted ::
  "string \<Rightarrow> ccm \<Rightarrow> session \<Rightarrow> service_info \<Rightarrow> string \<Rightarrow> bytes \<Rightarrow> bytes \<Rightarrow> (exn + bool) \<times> session" where
  "parse_atc1441_encrypted sys_platform aead s info nm data source_mac =
     (if sys_platform = ''darwin'' then (Inr False, s)
      else
        (let s1 = s\<lparr>mac_known := True\<rparr>;
             atc_mac = source_mac;
             s2 = s1\<lparr>encrypted := Some True\<rparr>
         in case decrypt_atc aead s2 data atc_mac of
              (Inl e, s3) \<Rightarrow> (Inl e, s3)
            | (Inr None, s3) \<Rightarrow> (Inr False, s3)
            | (Inr (Some decrypted_data), s3) \<Rightarrow>
                (case byte_at decrypted_data 0 of
                   Inl e \<Rightarrow> (Inl e, s3)
                 | Inr d0 \<Rightarrow>
                (case byte_at decrypted_data 1 of
                   Inl e \<Rightarrow> (Inl e, s3)
                 | Inr d1 \<Rightarrow>
                (case byte_at decrypted_data 2 of
                   Inl e \<Rightarrow> (Inl e, s3)
                 | Inr d2 \<Rightarrow>
                     (let temp = of_int (uint d0) / 2 - 40;
                          hum = of_int (uint d1) / 2;
                          bat = uint (d2 AND 0x7F);
                          trg = uint (drop_bit 7 d2);
                          bat = (if bat > 100 then 100 else bat);
                          s4 = update_predefined_sensor s3 TEMPERATURE__CELSIUS (PyFloat temp);
                          s5 = update_predefined_sensor s4 HUMIDITY__PERCENTAGE (PyFloat hum);
                          s6 = update_predefined_sensor s5 BATTERY__PERCENTAGE (PyInt bat)
                      in finish s6 info nm ''ATC (atc1441 encrypted)''))))))"

text \<open>The dispatch on the payload length, after the source address was converted.\<close>

definition parse_atc ::
  "string \<Rightarrow> ccm \<Rightarrow> session \<Rightarrow> service_info \<Rightarrow> string \<Rightarrow> bytes \<Rightarrow> (exn + bool) \<times> session" where
  "parse_atc sys_platform aead s info nm data =
     (let msg_length = length data in
      case source_mac_of (address info) of
        Inl e \<Rightarrow> (Inl e, s)
      | Inr source_mac \<Rightarrow>
          if msg_length = 15 then parse_pvvx sys_platform s info nm data source_mac
          else if msg_length = 13 then parse_atc1441 sys_platform s info nm data source_mac
          else if msg_length = 11 then
            parse_pvvx_encrypted sys_platform aead s info nm data source_mac
          else if msg_length = 8 then
            parse_atc1441_encrypted sys_platform aead s info nm data source_mac
          else (Inr False, s))"

text \<open>\<open>_start_update\<close>: every payload of \<open>service_data\<close> is parsed in turn; a payload that
  parses makes the advertisement the \<open>last_service_info\<close>; an exception ends the loop.\<close>

fun parse_all ::
  "string \<Rightarrow> ccm \<Rightarrow> session \<Rightarrow> service_info \<Rightarrow> (string \<times> bytes) list \<Rightarrow> (exn + unit) \<times> session" where
  "parse_all sys_platform aead s info [] = (Inr (), s)"
| "parse_all sys_platform aead s info ((uuid, data) # rest) =
     (case parse_atc sys_platform aead s info (name info) data of
        (Inl e, s') \<Rightarrow> (Inl e, s')
      | (Inr ok, s') \<Rightarrow>
          parse_all sys_platform aead
            (if ok then s'\<lparr>last_service_info := Some info\<rparr> else s') info rest)"

definition start_update :: "string \<Rightarrow> ccm \<Rightarrow> session \<Rightarrow> service_info \<Rightarrow> (exn + unit) \<times> session" where
  "start_update sys_platform aead s info =
     parse_all sys_platform aead
       (s\<lparr>device_manufacturer := Some ''ATC'', device_type := Some ''ATC sensor''\<rparr>)
       info (service_data info)"

section \<open>The two encrypted branches, factored\<close>

text \<open>
  The two encrypted branches differ only in how they read the plaintext. For the proofs they
  are written as one function \<open>parse_encrypted\<close> of the reader; the lemmas
  \<open>parse_pvvx_encrypted_eq\<close> and \<open>parse_atc1441_encrypted_eq\<close> below show that nothing
  was changed.
\<close>

definition decode_pvvx_encrypted ::
  "session \<Rightarrow> service_info \<Rightarrow> string \<Rightarrow> bytes \<Rightarrow> (exn + bool) \<times> session" where
  "decode_pvvx_encrypted s info nm decrypted_data =
     (case unpack_lt_hHBB decrypted_data of
        None \<Rightarrow> (Inl StructError, s)
      | Some (temp, hum, bat, trg) \<Rightarrow>
          (let s1 = update_predefined_sensor s TEMPERATURE__CELSIUS (PyFloat (of_int temp / 100));
               s2 = update_predefined_sensor s1 HUMIDITY__PERCENTAGE (PyFloat (of_int hum / 100));
               s3 = update_predefined_sensor s2 BATTERY__PERCENTAGE (PyInt bat)
           in finish s3 info nm ''ATC (pvvx encrypted)''))"

definition decode_atc1441_encrypted ::
  "session \<Rightarrow> service_info \<Rightarrow> string \<Rightarrow> bytes \<Rightarrow> (exn + bool) \<times> session" where
  "decode_atc1441_encrypted s info nm decrypted_data =
     (case byte_at decrypted_data 0 of
        Inl e \<Rightarrow> (Inl e, s)
      | Inr d0 \<Rightarrow>
     (case byte_at decrypted_data 1 of
        Inl e \<Rightarrow> (Inl e, s)
      | Inr d1 \<Rightarrow>
     (case byte_at decrypted_data 2 of
        Inl e \<Rightarrow> (Inl e, s)
      | Inr d2 \<Rightarrow>
          (let temp = of_int (uint d0) / 2 - 40;
               hum = of_int (uint d1) / 2;
               bat = uint (d2 AND 0x7F);
               trg = uint (drop_bit 7 d2);
               bat = (if bat > 100 then 100 else bat);
               s1 = update_predefined_sensor s TEMPERATURE__CELSIUS (PyFloat temp);
               s2 = update_predefined_sensor s1 HUMIDITY__PERCENTAGE (PyFloat hum);
               s3 = update_predefined_sensor s2 BATTERY__PERCENTAGE (PyInt bat)
           in finish s3 info nm ''ATC (atc1441 encrypted)''))))"

definition parse_encrypted ::
  "(session \<Rightarrow> service_info \<Rightarrow> string \<Rightarrow> bytes \<Rightarrow> (exn + bool) \<times> session) \<Rightarrow>
   string \<Rightarrow> ccm \<Rightarrow> session \<Rightarrow> service_info \<Rightarrow> string \<Rightarrow> bytes \<Rightarrow> bytes \<Rightarrow> (exn + bool) \<times> session" where
  "parse_encrypted decode sys_platform aead s info nm data source_mac =
     (if sys_platform = ''darwin'' then (Inr False, s)
      else case decrypt_atc aead (s\<lparr>mac_known := True, encrypted := Some True\<rparr>) data source_mac of
             (Inl e, s3) \<Rightarrow> (Inl e, s3)
           | (Inr None, s3) \<Rightarrow> (Inr False, s3)
           | (Inr (Some decrypted_data), s3) \<Rightarrow> decode s3 info nm decrypted_data)"

section \<open>The frames of the test suite\<close>

text \<open>
  To run the parser on concrete frames, the primitive is instantiated by a finite table of
  frames that AES-CCM authenticates, each with its plaintext; every other frame fails the tag
  check, and a nonce outside 7 to 13 bytes is rejected by \<open>AES.new\<close>.
\<close>

definition ccm_of_table ::
  "((bytes \<times> bytes \<times> nat \<times> bytes \<times> bytes \<times> bytes) \<times> bytes) list \<Rightarrow> ccm" where
  "ccm_of_table tbl key nonce mac_len aad cipherpayload token =
     (if length nonce < 7 \<or> 13 < length nonce then NewRejected
      else case map_of tbl (key, nonce, mac_len, aad, cipherpayload, token) of
             Some p \<Rightarrow> Plaintext p
           | None \<Rightarrow> MacCheckFailed)"

text \<open>The bindkey \<open>b9ea895fac7eea6d30532432a516f3a3\<close> and the address of
  \<open>tests/test_parser.py\<close>.\<close>

definition test_bindkey :: bytes where
  "test_bindkey = [0xb9, 0xea, 0x89, 0x5f, 0xac, 0x7e, 0xea, 0x6d,
                   0x30, 0x53, 0x24, 0x32, 0xa5, 0x16, 0xf3, 0xa3]"

definition test_info :: "bytes \<Rightarrow> service_info" where
  "test_info payload =
     \<lparr> name = ''ATC_8D18B2'', address = ''A4:C1:38:8D:18:B2'', rssi = - 60,
       service_data = [(''0000181a-0000-1000-8000-00805f9b34fb'', payload)] \<rparr>"

text \<open>
  Three frames sent from that address under that key, with the plaintext that AES-CCM
  (RFC 3610, 4-byte tag, additional data \<open>0x11\<close>) gives for each: the frame
  \<open>11 D6 03 FB FA 7B 6D FB 1E 26 FD\<close> of \<open>test_atc_pvvx_with_encryption\<close>, the frame
  \<open>58 E9 E6 55 65 81 B3 F9\<close> of \<open>test_atc1441_with_encryption\<close>, and the frame
  \<open>58 E9 E6 CE 7D D2 06 54\<close>, which encrypts a battery byte of \<open>0x7F\<close>.
\<close>

definition test_frames ::
  "((bytes \<times> bytes \<times> nat \<times> bytes \<times> bytes \<times> bytes) \<times> bytes) list" where
  "test_frames =
     [((test_bindkey, [0xB2, 0x18, 0x8D, 0x38, 0xC1, 0xA4, 0x0E, 0x16, 0x1A, 0x18, 0x11], 4, [0x11],
        [0xD6, 0x03, 0xFB, 0xFA, 0x7B, 0x6D], [0xFB, 0x1E, 0x26, 0xFD]),
       [0x29, 0x09, 0x4D, 0x10, 0x3D, 0x04]),
      ((test_bindkey, [0xB2, 0x18, 0x8D, 0x38, 0xC1, 0xA4, 0x0B, 0x16, 0x1A, 0x18, 0x58], 4, [0x11],
        [0xE9, 0xE6, 0x55], [0x65, 0x81, 0xB3, 0xF9]),
       [0x85, 0x5E, 0xE4]),
      ((test_bindkey, [0xB2, 0x18, 0x8D, 0x38, 0xC1, 0xA4, 0x0B, 0x16, 0x1A, 0x18, 0x58], 4, [0x11],
        [0xE9, 0xE6, 0xCE], [0x7D, 0xD2, 0x06, 0x54]),
       [0x85, 0x5E, 0x7F])]"

definition test_ccm :: ccm where
  "test_ccm = ccm_of_table test_frames"

text \<open>The four payloads of \<open>tests/test_parser.py\<close>, in the order of the tests.\<close>

definition atc1441_frame :: bytes where
  "atc1441_frame = [0xA4, 0xC1, 0x38, 0x8D, 0x18, 0xB2, 0x01, 0x12, 0x2F, 0x64, 0x0C, 0xA0, 0x25]"

definition pvvx_frame :: bytes where
  "pvvx_frame = [0xB2, 0x18, 0x8D, 0x38, 0xC1, 0xA4, 0x59, 0x0A, 0xAD, 0x13, 0xB6, 0x09,
                 0x1F, 0x1E, 0x05]"

definition pvvx_encrypted_frame :: bytes where
  "pvvx_encrypted_frame = [0x11, 0xD6, 0x03, 0xFB, 0xFA, 0x7B, 0x6D, 0xFB, 0x1E, 0x26, 0xFD]"

definition atc1441_encrypted_frame :: bytes where
  "atc1441_encrypted_frame = [0x58, 0xE9, 0xE6, 0x55, 0x65, 0x81, 0xB3, 0xF9]"

text \<open>Three more payloads: the pvvx payload with another first byte, the encrypted pvvx
  payload with another last byte of the tag, and an encrypted atc1441 payload whose battery
  byte is \<open>0x7F\<close>.\<close>

definition pvvx_frame_other_mac :: bytes where
  "pvvx_frame_other_mac = [0xB3, 0x18, 0x8D, 0x38, 0xC1, 0xA4, 0x59, 0x0A, 0xAD, 0x13, 0xB6, 0x09,
                           0x1F, 0x1E, 0x05]"

definition pvvx_encrypted_frame_bad_tag :: bytes where
  "pvvx_encrypted_frame_bad_tag = [0x11, 0xD6, 0x03, 0xFB, 0xFA, 0x7B, 0x6D, 0xFB, 0x1E, 0x26, 0xFC]"

definition atc1441_encrypted_frame_127 :: bytes where
  "atc1441_encrypted_frame_127 = [0x58, 0xE9, 0xE6, 0xCE, 0x7D, 0xD2, 0x06, 0x54]"

text \<open>The test address written with dashes.\<close>

definition dashed_info :: "bytes \<Rightarrow> service_info" where
  "dashed_info payload =
     \<lparr> name = ''ATC_8D18B2'', address = ''A4-C1-38-8D-18-B2'', rssi = - 60,
       service_data = [(''0000181a-0000-1000-8000-00805f9b34fb'', payload)] \<rparr>"

section \<open>Reading 16-bit fields\<close>

lemma word16_eq_add: "word16 hi lo = push_bit 8 (ucast hi) + ucast lo"
proof -
  have "push_bit 8 (ucast hi :: 16 word) AND ucast lo = 0"
    by (rule bit_eqI) (auto simp: bit_simps dest: bit_imp_le_length)
  then show ?thesis
    unfolding word16_def by (simp add: disjunctive_add_eq_or)
qed

lemma uint_word16: "uint (word16 hi lo) = 256 * uint hi + uint lo"
proof -
  have "uint hi < 256" "uint lo < 256" "0 \<le> uint hi" "0 \<le> uint lo"
    using uint_lt2p [of hi] uint_lt2p [of lo] by simp_all
  then show ?thesis
    by (simp add: word16_eq_add uint_word_ariths push_bit_eq_mult uint_up_ucast is_up take_bit_eq_mod)
qed

lemma sint_word16:
  "sint (word16 hi lo) =
     (if 256 * uint hi + uint lo < 32768 then 256 * uint hi + uint lo
      else 256 * uint hi + uint lo - 65536)"
proof -
  define x where "x = 256 * uint hi + uint lo"
  have b: "0 \<le> x" "x < 65536"
    using uint_lt2p [of hi] uint_lt2p [of lo] by (simp_all add: x_def)
  have "sint (word16 hi lo) = take_bit 16 (x + 32768) - 32768"
    by (simp add: sint_uint uint_word16 signed_take_bit_eq_take_bit_shift x_def)
  then have s: "sint (word16 hi lo) = (x + 32768) mod 65536 - 32768"
    by (simp add: take_bit_eq_mod)
  have "sint (word16 hi lo) = (if x < 32768 then x else x - 65536)"
  proof (cases "x < 32768")
    case True
    with b have "(x + 32768) mod 65536 = x + 32768"
      by (intro mod_pos_pos_trivial) simp_all
    with True s show ?thesis by simp
  next
    case False
    have "x + 32768 = (x - 32768) + 65536" by simp
    then have "(x + 32768) mod 65536 = (x - 32768) mod 65536"
      by (metis mod_add_self2)
    also from False b have "\<dots> = x - 32768"
      by (intro mod_pos_pos_trivial) simp_all
    finally show ?thesis using False s by simp
  qed
  then show ?thesis by (simp add: x_def)
qed

lemma uint_and_7F: "uint ((w :: byte) AND 0x7F) = uint w mod 128"
proof -
  have "(0x7F :: byte) = mask 7" by (simp add: mask_eq_exp_minus_1)
  then have "uint (w AND 0x7F) = uint (take_bit 7 w)" by (simp only: take_bit_eq_mask)
  also have "\<dots> = take_bit 7 (uint w)" by (simp only: unsigned_take_bit_eq)
  also have "\<dots> = uint w mod 128" by (simp add: take_bit_eq_mod)
  finally show ?thesis .
qed

section \<open>Lists of a known length\<close>

lemma length15:
  assumes "length (xs :: 'a list) = 15"
  obtains a0 a1 a2 a3 a4 a5 a6 a7 a8 a9 a10 a11 a12 a13 a14
  where "xs = [a0, a1, a2, a3, a4, a5, a6, a7, a8, a9, a10, a11, a12, a13, a14]"
  using assms by (auto simp: numeral_eq_Suc length_Suc_conv)

lemma length6:
  assumes "length (xs :: 'a list) = 6"
  obtains a0 a1 a2 a3 a4 a5 where "xs = [a0, a1, a2, a3, a4, a5]"
  using assms by (auto simp: numeral_eq_Suc length_Suc_conv)

lemma drop_take_nth: "j \<le> length xs \<Longrightarrow> drop i (take j xs) = map ((!) xs) [i..<j]"
  by (rule nth_equalityI) auto

section \<open>The test address and the test frames\<close>

lemma source_mac_of_test_address:
  "source_mac_of ''A4:C1:38:8D:18:B2'' = Inr [0xA4, 0xC1, 0x38, 0x8D, 0x18, 0xB2]"
  by code_simp

lemma source_mac_of_dashed_address:
  "source_mac_of ''A4-C1-38-8D-18-B2'' = Inl ValueError"
  by code_simp

lemma test_info_source_mac:
  "source_mac_of (address (test_info p)) = Inr [0xA4, 0xC1, 0x38, 0x8D, 0x18, 0xB2]"
  by (simp add: test_info_def source_mac_of_test_address)

lemma test_ccm_frames:
  "test_ccm test_bindkey [0xB2, 0x18, 0x8D, 0x38, 0xC1, 0xA4, 0x0E, 0x16, 0x1A, 0x18, 0x11] 4 [0x11]
     [0xD6, 0x03, 0xFB, 0xFA, 0x7B, 0x6D] [0xFB, 0x1E, 0x26, 0xFD]
     = Plaintext [0x29, 0x09, 0x4D, 0x10, 0x3D, 0x04]"
  "test_ccm test_bindkey [0xB2, 0x18, 0x8D, 0x38, 0xC1, 0xA4, 0x0E, 0x16, 0x1A, 0x18, 0x11] 4 [0x11]
     [0xD6, 0x03, 0xFB, 0xFA, 0x7B, 0x6D] [0xFB, 0x1E, 0x26, 0xFC]
     = MacCheckFailed"
  "test_ccm test_bindkey [0xB2, 0x18, 0x8D, 0x38, 0xC1, 0xA4, 0x0B, 0x16, 0x1A, 0x18, 0x58] 4 [0x11]
     [0xE9, 0xE6, 0x55] [0x65, 0x81, 0xB3, 0xF9]
     = Plaintext [0x85, 0x5E, 0xE4]"
  "test_ccm test_bindkey [0xB2, 0x18, 0x8D, 0x38, 0xC1, 0xA4, 0x0B, 0x16, 0x1A, 0x18, 0x58] 4 [0x11]
     [0xE9, 0xE6, 0xCE] [0x7D, 0xD2, 0x06, 0x54]
     = Plaintext [0x85, 0x5E, 0x7F]"
  by (simp_all add: test_ccm_def ccm_of_table_def test_frames_def)

section \<open>What each branch can return\<close>

lemma parse_pvvx_encrypted_eq:
  "parse_pvvx_encrypted sys_platform aead s info nm data m =
   parse_encrypted decode_pvvx_encrypted sys_platform aead s info nm data m"
  by (simp add: parse_pvvx_encrypted_def parse_encrypted_def decode_pvvx_encrypted_def Let_def
      split: prod.splits sum.splits option.splits)

lemma parse_atc1441_encrypted_eq:
  "parse_atc1441_encrypted sys_platform aead s info nm data m =
   parse_encrypted decode_atc1441_encrypted sys_platform aead s info nm data m"
  by (simp add: parse_atc1441_encrypted_def parse_encrypted_def decode_atc1441_encrypted_def
      Let_def split: prod.splits sum.splits option.splits)

lemma decrypt_atc_cases:
  assumes "decrypt_atc aead s data atc_mac = (r, s')"
  shows "(s' = s \<and> (r = Inr None \<or> (\<exists>e. r = Inl e)))
       \<or> (s' = s\<lparr>bindkey_verified := False\<rparr> \<and> r = Inr None)
       \<or> (s' = s\<lparr>bindkey_verified := True\<rparr> \<and> (\<exists>p. r = Inr (Some p)))"
  using assms
  by (auto simp: decrypt_atc_def Let_def split: option.splits if_splits ccm_result.splits)

lemma finish_result: "fst (finish s info nm firmware) = Inr True"
  by (simp add: finish_def Let_def)

lemma parse_pvvx_False:
  "parse_pvvx sys_platform s info nm data m = (Inr False, s') \<Longrightarrow> s' = s"
  by (auto simp: parse_pvvx_def Let_def finish_def split: option.splits if_splits)

lemma parse_atc1441_False:
  "parse_atc1441 sys_platform s info nm data m = (Inr False, s') \<Longrightarrow> s' = s"
  by (auto simp: parse_atc1441_def Let_def finish_def split: option.splits if_splits)

lemma decode_pvvx_encrypted_not_False:
  "decode_pvvx_encrypted s info nm p \<noteq> (Inr False, s')"
  by (auto simp: decode_pvvx_encrypted_def Let_def finish_def split: option.splits)

lemma decode_atc1441_encrypted_not_False:
  "decode_atc1441_encrypted s info nm p \<noteq> (Inr False, s')"
  by (auto simp: decode_atc1441_encrypted_def Let_def finish_def split: sum.splits)

lemma parse_encrypted_False:
  assumes "parse_encrypted decode sys_platform aead s info nm data m = (Inr False, s')"
    and "\<And>s3 p. decode s3 info nm p \<noteq> (Inr False, s')"
  shows "(sys_platform = ''darwin'' \<and> s' = s)
       \<or> (sys_platform \<noteq> ''darwin'' \<and>
            (s' = s\<lparr>mac_known := True, encrypted := Some True\<rparr>
           \<or> s' = s\<lparr>mac_known := True, encrypted := Some True, bindkey_verified := False\<rparr>))"
proof (cases "sys_platform = ''darwin''")
  case True
  with assms(1) show ?thesis by (simp add: parse_encrypted_def)
next
  case False
  obtain r s3 where d: "decrypt_atc aead (s\<lparr>mac_known := True, encrypted := Some True\<rparr>) data m = (r, s3)"
    by (cases "decrypt_atc aead (s\<lparr>mac_known := True, encrypted := Some True\<rparr>) data m")
  from assms False d have "r = Inr None \<and> s3 = s'"
    by (auto simp: parse_encrypted_def Let_def split: sum.splits option.splits)
  with decrypt_atc_cases [OF d] False show ?thesis by auto
qed

lemma parse_atc_Inl:
  "source_mac_of (address info) = Inl e \<Longrightarrow> parse_atc sys_platform aead s info nm data = (Inl e, s)"
  by (simp add: parse_atc_def)

lemma parse_atc_Inr:
  "source_mac_of (address info) = Inr m \<Longrightarrow>
   parse_atc sys_platform aead s info nm data =
     (if length data = 15 then parse_pvvx sys_platform s info nm data m
      else if length data = 13 then parse_atc1441 sys_platform s info nm data m
      else if length data = 11 then
        parse_encrypted decode_pvvx_encrypted sys_platform aead s info nm data m
      else if length data = 8 then
        parse_encrypted decode_atc1441_encrypted sys_platform aead s info nm data m
      else (Inr False, s))"
  by (simp add: parse_atc_def Let_def parse_pvvx_encrypted_eq parse_atc1441_encrypted_eq)

section \<open>Dispatch on the payload length\<close>

text \<open>
  A payload whose length is none of 15, 13, 11 and 8 leaves the session exactly as it was,
  and the call returns \<open>False\<close> (the \<open>else\<close> branch of the dispatch) whenever the source
  address is one that lines 85 to 90 convert to bytes.
\<close>

lemma parse_atc_unrecognized_length:
  assumes "length data \<notin> {15, 13, 11, 8}"
  shows "snd (parse_atc sys_platform aead s info nm data) = s
       \<and> (\<forall>mac. source_mac_of (address info) = Inr mac \<longrightarrow>
            parse_atc sys_platform aead s info nm data = (Inr False, s))"
  using assms
  by (cases "source_mac_of (address info)") (auto simp: parse_atc_Inl parse_atc_Inr)

lemma parse_atc_unrecognized_length_test_address:
  "length [0x01, 0x02, 0x03 :: byte] \<notin> {15, 13, 11, 8}
   \<and> snd (parse_atc ''linux'' test_ccm (init ''linux'' None) (test_info [0x01, 0x02, 0x03])
             ''ATC_8D18B2'' [0x01, 0x02, 0x03]) = init ''linux'' None
   \<and> source_mac_of (address (test_info [0x01, 0x02, 0x03])) = Inr [0xA4, 0xC1, 0x38, 0x8D, 0x18, 0xB2]
   \<and> parse_atc ''linux'' test_ccm (init ''linux'' None) (test_info [0x01, 0x02, 0x03])
        ''ATC_8D18B2'' [0x01, 0x02, 0x03] = (Inr False, init ''linux'' None)"
proof -
  have l: "length [0x01, 0x02, 0x03 :: byte] \<notin> {15, 13, 11, 8}" by simp
  from parse_atc_unrecognized_length [OF l, of "''linux''" test_ccm "init ''linux'' None"
      "test_info [0x01, 0x02, 0x03]" "''ATC_8D18B2''"] l test_info_source_mac [of "[0x01, 0x02, 0x03]"]
  show ?thesis by simp
qed

text \<open>
  C7. The claim asks that a payload of an unrecognised length always makes the call fail
  in-band. A payload of three bytes sent from the address written \<open>A4-C1-38-8D-18-B2\<close>
  does not: the address is converted before the length is looked at, the conversion raises
  \<open>ValueError\<close>, and the \<open>else\<close> branch of the dispatch is never reached. The session is
  left as it was.
\<close>

theorem short_payload_from_dashed_address_raises:
  "length [0x01, 0x02, 0x03 :: byte] = 3
   \<and> parse_atc ''linux'' test_ccm (init ''linux'' None) (dashed_info [0x01, 0x02, 0x03])
       ''ATC_8D18B2'' [0x01, 0x02, 0x03] = (Inl ValueError, init ''linux'' None)"
proof -
  have a: "source_mac_of (address (dashed_info [0x01, 0x02, 0x03])) = Inl ValueError"
    by (simp add: dashed_info_def source_mac_of_dashed_address)
  show ?thesis by (simp add: parse_atc_Inl [OF a])
qed

section \<open>The plaintext formats\<close>

text \<open>
  A payload of 15 bytes, on a platform other than \<open>darwin\<close>, from an address that the
  parser converts to the bytes \<open>mac\<close>. If the first six payload bytes, reversed, differ
  from \<open>mac\<close>, the call returns \<open>False\<close>, raises nothing and leaves the session as it
  was: no measurement is stored. Otherwise it returns \<open>True\<close> and stores the temperature
  (bytes 6 and 7, little-endian, signed, divided by 100), the humidity (bytes 8 and 9,
  little-endian, unsigned, divided by 100), the voltage (bytes 10 and 11, little-endian,
  unsigned, divided by 1000) and the battery (byte 12).
\<close>

lemma parse_atc_pvvx_plaintext:
  assumes "sys_platform \<noteq> ''darwin''"
    and "length data = 15"
    and "source_mac_of (address info) = Inr mac"
  shows "parse_atc sys_platform aead s info nm data =
     (if [data ! 5, data ! 4, data ! 3, data ! 2, data ! 1, data ! 0] \<noteq> mac
      then (Inr False, s)
      else
        (Inr True,
         s\<lparr>sensor_values := (sensor_values s)
              (TEMPERATURE__CELSIUS \<mapsto>
                 PyFloat (of_int (if uint (data ! 6) + 256 * uint (data ! 7) < 32768
                                  then uint (data ! 6) + 256 * uint (data ! 7)
                                  else uint (data ! 6) + 256 * uint (data ! 7) - 65536) / 100),
               HUMIDITY__PERCENTAGE \<mapsto>
                 PyFloat (of_int (uint (data ! 8) + 256 * uint (data ! 9)) / 100),
               VOLTAGE__ELECTRIC_POTENTIAL_VOLT \<mapsto>
                 PyFloat (of_int (uint (data ! 10) + 256 * uint (data ! 11)) / 1000),
               BATTERY__PERCENTAGE \<mapsto> PyInt (uint (data ! 12))),
           title := Some (nm @ '' ('' @ address info @ '')''),
           device_name := Some (nm @ '' ('' @ address info @ '')''),
           device_sw_version := Some ''ATC (pvvx)''\<rparr>))"
proof -
  from assms(2) obtain a0 a1 a2 a3 a4 a5 a6 a7 a8 a9 a10 a11 a12 a13 a14
    where d: "data = [a0, a1, a2, a3, a4, a5, a6, a7, a8, a9, a10, a11, a12, a13, a14]"
    by (rule length15)
  show ?thesis
    using assms(1) unfolding parse_atc_Inr [OF assms(3)] d
    by (simp add: parse_pvvx_def Let_def finish_def update_predefined_sensor_def
        uint_word16 sint_word16 add.commute)
qed

text \<open>The frame of \<open>test_atc_pvvx_no_encryption\<close> gives 26.49, 50.37, 2.486 and 31; the same
  frame with another first byte is discarded.\<close>

lemma parse_atc_pvvx_plaintext_test_frame:
  "''linux'' \<noteq> ''darwin''
   \<and> length pvvx_frame = 15
   \<and> source_mac_of (address (test_info pvvx_frame)) = Inr [0xA4, 0xC1, 0x38, 0x8D, 0x18, 0xB2]
   \<and> parse_atc ''linux'' test_ccm (init ''linux'' None) (test_info pvvx_frame) ''ATC_8D18B2''
        pvvx_frame =
       (Inr True,
        (init ''linux'' None)
          \<lparr>sensor_values :=
             [TEMPERATURE__CELSIUS \<mapsto> PyFloat (2649 / 100),
              HUMIDITY__PERCENTAGE \<mapsto> PyFloat (5037 / 100),
              VOLTAGE__ELECTRIC_POTENTIAL_VOLT \<mapsto> PyFloat (2486 / 1000),
              BATTERY__PERCENTAGE \<mapsto> PyInt 31],
           title := Some ''ATC_8D18B2 (A4:C1:38:8D:18:B2)'',
           device_name := Some ''ATC_8D18B2 (A4:C1:38:8D:18:B2)'',
           device_sw_version := Some ''ATC (pvvx)''\<rparr>)
   \<and> length pvvx_frame_other_mac = 15
   \<and> parse_atc ''linux'' test_ccm (init ''linux'' None) (test_info pvvx_frame_other_mac)
        ''ATC_8D18B2'' pvvx_frame_other_mac =
       (Inr False, init ''linux'' None)"
proof -
  have p: "''linux'' \<noteq> ''darwin''" by simp
  have l1: "length pvvx_frame = 15" by (simp add: pvvx_frame_def)
  have l2: "length pvvx_frame_other_mac = 15" by (simp add: pvvx_frame_other_mac_def)
  from parse_atc_pvvx_plaintext [OF p l1 test_info_source_mac,
      where aead = test_ccm and s = "init ''linux'' None" and nm = "''ATC_8D18B2''"]
  have r1: "parse_atc ''linux'' test_ccm (init ''linux'' None) (test_info pvvx_frame) ''ATC_8D18B2''
        pvvx_frame =
       (Inr True,
        (init ''linux'' None)
          \<lparr>sensor_values :=
             [TEMPERATURE__CELSIUS \<mapsto> PyFloat (2649 / 100),
              HUMIDITY__PERCENTAGE \<mapsto> PyFloat (5037 / 100),
              VOLTAGE__ELECTRIC_POTENTIAL_VOLT \<mapsto> PyFloat (2486 / 1000),
              BATTERY__PERCENTAGE \<mapsto> PyInt 31],
           title := Some ''ATC_8D18B2 (A4:C1:38:8D:18:B2)'',
           device_name := Some ''ATC_8D18B2 (A4:C1:38:8D:18:B2)'',
           device_sw_version := Some ''ATC (pvvx)''\<rparr>)"
    by (simp add: test_info_def init_def pvvx_frame_def)
  from parse_atc_pvvx_plaintext [OF p l2 test_info_source_mac,
      where aead = test_ccm and s = "init ''linux'' None" and nm = "''ATC_8D18B2''"]
  have r2: "parse_atc ''linux'' test_ccm (init ''linux'' None) (test_info pvvx_frame_other_mac)
        ''ATC_8D18B2'' pvvx_frame_other_mac = (Inr False, init ''linux'' None)"
    by (simp add: pvvx_frame_other_mac_def)
  from p l1 l2 r1 r2 test_info_source_mac [of pvvx_frame] show ?thesis by blast
qed

text \<open>
  C6. The claim asks that a payload of 15 bytes either is discarded without an exception or
  reports its four values. The frame of \<open>test_atc_pvvx_no_encryption\<close> sent from the
  address written \<open>A4-C1-38-8D-18-B2\<close> does neither: the conversion of the address raises
  \<open>ValueError\<close> before the payload is read, and no measurement is stored.
\<close>

theorem pvvx_frame_from_dashed_address_raises:
  "length pvvx_frame = 15
   \<and> parse_atc ''linux'' test_ccm (init ''linux'' None) (dashed_info pvvx_frame) ''ATC_8D18B2''
       pvvx_frame = (Inl ValueError, init ''linux'' None)"
proof -
  have a: "source_mac_of (address (dashed_info pvvx_frame)) = Inl ValueError"
    by (simp add: dashed_info_def source_mac_of_dashed_address)
  show ?thesis by (simp add: parse_atc_Inl [OF a]) (simp add: pvvx_frame_def)
qed

text \<open>
  C10. The 13-byte payload \<open>A4 C1 38 8D 18 B2 01 12 2F 64 0C A0 25\<close> from the address
  \<open>A4:C1:38:8D:18:B2\<close> is decoded, on every platform and in every session, to the
  temperature 27.4, the humidity 47, the battery 100 and the voltage 3.232: the temperature
  and the voltage are read big-endian, the six leading bytes are compared with the address
  in the order they come.
\<close>

theorem parse_atc_atc1441_vector:
  "parse_atc sys_platform aead s
     \<lparr>name = nm, address = ''A4:C1:38:8D:18:B2'', rssi = r, service_data = sd\<rparr> nm
     [0xA4, 0xC1, 0x38, 0x8D, 0x18, 0xB2, 0x01, 0x12, 0x2F, 0x64, 0x0C, 0xA0, 0x25] =
   (Inr True,
    s\<lparr>sensor_values := (sensor_values s)
         (TEMPERATURE__CELSIUS \<mapsto> PyFloat (274 / 10),
          HUMIDITY__PERCENTAGE \<mapsto> PyInt 47,
          VOLTAGE__ELECTRIC_POTENTIAL_VOLT \<mapsto> PyFloat (3232 / 1000),
          BATTERY__PERCENTAGE \<mapsto> PyInt 100),
      title := Some (nm @ '' (A4:C1:38:8D:18:B2)''),
      device_name := Some (nm @ '' (A4:C1:38:8D:18:B2)''),
      device_sw_version := Some ''ATC (atc1441)''\<rparr>)"
proof -
  have a: "source_mac_of (address \<lparr>name = nm, address = ''A4:C1:38:8D:18:B2'', rssi = r, service_data = sd\<rparr>)
             = Inr [0xA4, 0xC1, 0x38, 0x8D, 0x18, 0xB2]"
    by (simp add: source_mac_of_test_address)
  show ?thesis
    unfolding parse_atc_Inr [OF a]
    by (simp add: parse_atc1441_def Let_def finish_def update_predefined_sensor_def word16_def)
qed

text \<open>Through \<open>_start_update\<close>, on a new session: the advertisement of
  \<open>test_atc1441_no_encryption\<close> becomes the \<open>last_service_info\<close>.\<close>

lemma start_update_atc1441_frame:
  "start_update ''linux'' aead (init ''linux'' None) (test_info atc1441_frame) =
   (Inr (),
    (init ''linux'' None)
      \<lparr>device_manufacturer := Some ''ATC'', device_type := Some ''ATC sensor'',
       sensor_values :=
         [TEMPERATURE__CELSIUS \<mapsto> PyFloat (274 / 10),
          HUMIDITY__PERCENTAGE \<mapsto> PyInt 47,
          VOLTAGE__ELECTRIC_POTENTIAL_VOLT \<mapsto> PyFloat (3232 / 1000),
          BATTERY__PERCENTAGE \<mapsto> PyInt 100],
       title := Some ''ATC_8D18B2 (A4:C1:38:8D:18:B2)'',
       device_name := Some ''ATC_8D18B2 (A4:C1:38:8D:18:B2)'',
       device_sw_version := Some ''ATC (atc1441)'',
       last_service_info := Some (test_info atc1441_frame)\<rparr>)"
proof -
  have n: "name (test_info p) = ''ATC_8D18B2''"
    and d: "service_data (test_info p) = [(''0000181a-0000-1000-8000-00805f9b34fb'', p)]"
    and a: "address (test_info p) = ''A4:C1:38:8D:18:B2''" for p
    by (simp_all add: test_info_def)
  have l: "length atc1441_frame = 13" by (simp add: atc1441_frame_def)
  have p: "parse_atc ''linux'' aead s (test_info atc1441_frame) ''ATC_8D18B2'' atc1441_frame =
      (Inr True,
       s\<lparr>sensor_values := (sensor_values s)
            (TEMPERATURE__CELSIUS \<mapsto> PyFloat (274 / 10),
             HUMIDITY__PERCENTAGE \<mapsto> PyInt 47,
             VOLTAGE__ELECTRIC_POTENTIAL_VOLT \<mapsto> PyFloat (3232 / 1000),
             BATTERY__PERCENTAGE \<mapsto> PyInt 100),
          title := Some ''ATC_8D18B2 (A4:C1:38:8D:18:B2)'',
          device_name := Some ''ATC_8D18B2 (A4:C1:38:8D:18:B2)'',
          device_sw_version := Some ''ATC (atc1441)''\<rparr>)" for s
    unfolding parse_atc_Inr [OF test_info_source_mac] l
    by (simp add: parse_atc1441_def Let_def finish_def update_predefined_sensor_def word16_def a
        atc1441_frame_def)
  show ?thesis
    by (simp add: start_update_def n d p) (simp add: init_def)
qed

section \<open>The AEAD helper\<close>

text \<open>
  C5. With a 16-byte key configured, a 6-byte source identifier and a payload of 4 to 252
  bytes (the parser passes payloads of 11 and of 8 bytes), \<open>_decrypt_atc\<close> hands to the
  primitive: the key; the 11-byte nonce made of the identifier reversed, the byte
  \<open>len(payload) + 3\<close>, the bytes \<open>16 1A 18\<close> and payload byte 0; the tag length 4; the
  additional data \<open>0x11\<close>; payload bytes 1 to \<open>len - 5\<close> as the ciphertext; and the last four
  payload bytes as the tag. What it returns and what it does to \<open>bindkey_verified\<close> is
  decided by the answer of the primitive to exactly these arguments.
\<close>

theorem decrypt_atc_aead_inputs:
  assumes "bindkey s = Some key" and "length key = 16" and "length atc_mac = 6"
    and "4 \<le> length data" and "length data \<le> 252"
  shows "decrypt_atc aead s data atc_mac =
     (case aead key
             [atc_mac ! 5, atc_mac ! 4, atc_mac ! 3, atc_mac ! 2, atc_mac ! 1, atc_mac ! 0,
              of_nat (length data + 3), 0x16, 0x1A, 0x18, data ! 0]
             4 [0x11]
             (map ((!) data) [1 ..< length data - 4])
             (map ((!) data) [length data - 4 ..< length data]) of
        NewRejected \<Rightarrow> (Inl ValueError, s)
      | MacCheckFailed \<Rightarrow> (Inr None, s)
      | NoPayload \<Rightarrow> (Inr None, s\<lparr>bindkey_verified := False\<rparr>)
      | Plaintext p \<Rightarrow> (Inr (Some p), s\<lparr>bindkey_verified := True\<rparr>))
   \<and> length (map ((!) data) [length data - 4 ..< length data]) = 4"
proof -
  from assms(3) obtain a0 a1 a2 a3 a4 a5 where m: "atc_mac = [a0, a1, a2, a3, a4, a5]"
    by (rule length6)
  from assms(4) have t1: "take 1 data = [data ! 0]"
    by (cases data) simp_all
  have c: "drop 1 (take (length data - 4) data) = map ((!) data) [1 ..< length data - 4]"
    by (rule drop_take_nth) simp
  have "drop (length data - 4) (take (length data) data)
          = map ((!) data) [length data - 4 ..< length data]"
    by (rule drop_take_nth) simp
  then have t: "drop (length data - 4) data = map ((!) data) [length data - 4 ..< length data]"
    by simp
  from assms(2) have k: "key \<noteq> []" by auto
  from assms(1,2,4,5) k show ?thesis
    unfolding decrypt_atc_def Let_def t1 c t m
    by (simp split: ccm_result.splits)
qed

text \<open>On the encrypted frame of the test suite: the nonce is
  \<open>B2 18 8D 38 C1 A4 0E 16 1A 18 11\<close>, the ciphertext \<open>D6 03 FB FA 7B 6D\<close>, the tag
  \<open>FB 1E 26 FD\<close>.\<close>

theorem decrypt_atc_aead_inputs_witness:
  "bindkey (init ''linux'' (Some test_bindkey)) = Some test_bindkey
   \<and> length test_bindkey = 16
   \<and> length [0xA4, 0xC1, 0x38, 0x8D, 0x18, 0xB2 :: byte] = 6
   \<and> 4 \<le> length pvvx_encrypted_frame
   \<and> length pvvx_encrypted_frame \<le> 252
   \<and> test_ccm test_bindkey [0xB2, 0x18, 0x8D, 0x38, 0xC1, 0xA4, 0x0E, 0x16, 0x1A, 0x18, 0x11] 4 [0x11]
         [0xD6, 0x03, 0xFB, 0xFA, 0x7B, 0x6D] [0xFB, 0x1E, 0x26, 0xFD]
       = Plaintext [0x29, 0x09, 0x4D, 0x10, 0x3D, 0x04]
   \<and> decrypt_atc test_ccm (init ''linux'' (Some test_bindkey)) pvvx_encrypted_frame
        [0xA4, 0xC1, 0x38, 0x8D, 0x18, 0xB2] =
       (Inr (Some [0x29, 0x09, 0x4D, 0x10, 0x3D, 0x04]),
        (init ''linux'' (Some test_bindkey))\<lparr>bindkey_verified := True\<rparr>)"
proof -
  have b: "bindkey (init ''linux'' (Some test_bindkey)) = Some test_bindkey"
    by (simp add: init_def)
  have k: "length test_bindkey = 16" by (simp add: test_bindkey_def)
  have m: "length [0xA4, 0xC1, 0x38, 0x8D, 0x18, 0xB2 :: byte] = 6" by simp
  have l: "4 \<le> length pvvx_encrypted_frame" by (simp add: pvvx_encrypted_frame_def)
  have u: "length pvvx_encrypted_frame \<le> 252" by (simp add: pvvx_encrypted_frame_def)
  have i: "[1 ..< 7] = [1, 2, 3, 4, 5, 6 :: nat]" "[7 ..< 11] = [7, 8, 9, 10 :: nat]"
    by (simp_all add: upt_rec)
  from decrypt_atc_aead_inputs [OF b k m l u, of test_ccm]
  have "decrypt_atc test_ccm (init ''linux'' (Some test_bindkey)) pvvx_encrypted_frame
        [0xA4, 0xC1, 0x38, 0x8D, 0x18, 0xB2] =
       (Inr (Some [0x29, 0x09, 0x4D, 0x10, 0x3D, 0x04]),
        (init ''linux'' (Some test_bindkey))\<lparr>bindkey_verified := True\<rparr>)"
    by (simp add: pvvx_encrypted_frame_def i test_ccm_frames)
  with b k m l u test_ccm_frames(1) show ?thesis by blast
qed

text \<open>
  C8. When no key is configured, when the key is empty, and when the key has a length other
  than 16, \<open>_decrypt_atc\<close> returns \<open>None\<close> for every payload, raises nothing, and changes the
  session in one place only: \<open>bindkey_verified\<close> becomes false.
\<close>

theorem decrypt_atc_unusable_key:
  assumes "bindkey s = None \<or> bindkey s = Some [] \<or> (\<exists>key. bindkey s = Some key \<and> length key \<noteq> 16)"
  shows "decrypt_atc aead s data atc_mac = (Inr None, s\<lparr>bindkey_verified := False\<rparr>)"
  using assms by (auto simp: decrypt_atc_def)

theorem decrypt_atc_unusable_key_witness:
  "(bindkey (init ''linux'' (Some [0x01, 0x02])) = None
      \<or> bindkey (init ''linux'' (Some [0x01, 0x02])) = Some []
      \<or> (\<exists>key. bindkey (init ''linux'' (Some [0x01, 0x02])) = Some key \<and> length key \<noteq> 16))
   \<and> decrypt_atc test_ccm (init ''linux'' (Some [0x01, 0x02])) pvvx_encrypted_frame
        [0xA4, 0xC1, 0x38, 0x8D, 0x18, 0xB2] =
       (Inr None, (init ''linux'' (Some [0x01, 0x02]))\<lparr>bindkey_verified := False\<rparr>)"
proof -
  have k: "bindkey (init ''linux'' (Some [0x01, 0x02])) = None
      \<or> bindkey (init ''linux'' (Some [0x01, 0x02])) = Some []
      \<or> (\<exists>key. bindkey (init ''linux'' (Some [0x01, 0x02])) = Some key \<and> length key \<noteq> 16)"
    by (simp add: init_def)
  from decrypt_atc_unusable_key [OF k] k show ?thesis by blast
qed

text \<open>Seen from \<open>_parse_atc\<close>: an encrypted payload that meets an unusable key is answered
  with \<open>False\<close>.\<close>

lemma parse_atc_unusable_key:
  assumes "sys_platform \<noteq> ''darwin''"
    and "length data = 11 \<or> length data = 8"
    and "source_mac_of (address info) = Inr mac"
    and "bindkey s = None \<or> bindkey s = Some [] \<or> (\<exists>key. bindkey s = Some key \<and> length key \<noteq> 16)"
  shows "parse_atc sys_platform aead s info nm data =
           (Inr False, s\<lparr>mac_known := True, encrypted := Some True, bindkey_verified := False\<rparr>)"
proof -
  from assms(4) have "decrypt_atc aead (s\<lparr>mac_known := True, encrypted := Some True\<rparr>) data mac =
      (Inr None, s\<lparr>mac_known := True, encrypted := Some True, bindkey_verified := False\<rparr>)"
    by (auto simp: decrypt_atc_def)
  with assms(1,2) show ?thesis
    unfolding parse_atc_Inr [OF assms(3)] by (auto simp: parse_encrypted_def)
qed

text \<open>The flag \<open>bindkey_verified\<close> is set by a decryption that succeeded and by nothing
  else.\<close>

lemma decrypt_atc_only_success_verifies:
  "decrypt_atc aead s data atc_mac = (r, s') \<Longrightarrow> bindkey_verified s' \<Longrightarrow>
   bindkey_verified s \<or> (\<exists>p. r = Inr (Some p))"
  by (drule decrypt_atc_cases) auto

lemma decrypt_atc_tag_failure:
  assumes "bindkey s = Some key" and "length key = 16" and "length data \<le> 252"
    and "aead key (rev atc_mac @ [of_nat (length data + 3), 0x16, 0x1a, 0x18] @ take 1 data)
           4 [0x11] (drop 1 (take (length data - 4) data)) (drop (length data - 4) data)
         = MacCheckFailed"
  shows "decrypt_atc aead s data atc_mac = (Inr None, s)"
proof -
  from assms(2) have "key \<noteq> []" by auto
  with assms show ?thesis by (simp add: decrypt_atc_def Let_def)
qed

lemma decrypt_atc_test_key:
  "bindkey s = Some test_bindkey \<Longrightarrow> length data \<le> 252 \<Longrightarrow>
   decrypt_atc aead s data atc_mac =
     (case aead test_bindkey (rev atc_mac @ [of_nat (length data + 3), 0x16, 0x1a, 0x18] @ take 1 data)
             4 [0x11] (drop 1 (take (length data - 4) data)) (drop (length data - 4) data) of
        NewRejected \<Rightarrow> (Inl ValueError, s)
      | MacCheckFailed \<Rightarrow> (Inr None, s)
      | NoPayload \<Rightarrow> (Inr None, s\<lparr>bindkey_verified := False\<rparr>)
      | Plaintext p \<Rightarrow> (Inr (Some p), s\<lparr>bindkey_verified := True\<rparr>))"
  by (simp add: decrypt_atc_def Let_def test_bindkey_def split: ccm_result.splits)

text \<open>The two encrypted frames of the test suite, in a session that holds the test key.\<close>

lemma parse_atc_pvvx_encrypted_frame:
  assumes "bindkey s = Some test_bindkey"
  shows "parse_atc ''linux'' test_ccm s (test_info p) nm pvvx_encrypted_frame =
         (Inr True,
          s\<lparr>mac_known := True, encrypted := Some True, bindkey_verified := True,
            sensor_values := (sensor_values s)
              (TEMPERATURE__CELSIUS \<mapsto> PyFloat (2345 / 100),
               HUMIDITY__PERCENTAGE \<mapsto> PyFloat (4173 / 100),
               BATTERY__PERCENTAGE \<mapsto> PyInt 61),
            title := Some (nm @ '' (A4:C1:38:8D:18:B2)''),
            device_name := Some (nm @ '' (A4:C1:38:8D:18:B2)''),
            device_sw_version := Some ''ATC (pvvx encrypted)''\<rparr>)"
proof -
  have d: "decrypt_atc test_ccm (s\<lparr>mac_known := True, encrypted := Some True\<rparr>)
              pvvx_encrypted_frame [0xA4, 0xC1, 0x38, 0x8D, 0x18, 0xB2]
            = (Inr (Some [0x29, 0x09, 0x4D, 0x10, 0x3D, 0x04]),
               s\<lparr>mac_known := True, encrypted := Some True, bindkey_verified := True\<rparr>)"
    by (subst decrypt_atc_test_key)
      (simp_all add: assms test_ccm_frames pvvx_encrypted_frame_def)
  have l: "length pvvx_encrypted_frame = 11" by (simp add: pvvx_encrypted_frame_def)
  show ?thesis
    unfolding parse_atc_Inr [OF test_info_source_mac] l
    by (simp add: parse_encrypted_def d decode_pvvx_encrypted_def Let_def finish_def
        update_predefined_sensor_def word16_def test_info_def)
qed

lemma parse_atc_atc1441_encrypted_frame:
  assumes "bindkey s = Some test_bindkey"
  shows "parse_atc ''linux'' test_ccm s (test_info p) nm atc1441_encrypted_frame =
         (Inr True,
          s\<lparr>mac_known := True, encrypted := Some True, bindkey_verified := True,
            sensor_values := (sensor_values s)
              (TEMPERATURE__CELSIUS \<mapsto> PyFloat (265 / 10),
               HUMIDITY__PERCENTAGE \<mapsto> PyFloat 47,
               BATTERY__PERCENTAGE \<mapsto> PyInt 100),
            title := Some (nm @ '' (A4:C1:38:8D:18:B2)''),
            device_name := Some (nm @ '' (A4:C1:38:8D:18:B2)''),
            device_sw_version := Some ''ATC (atc1441 encrypted)''\<rparr>)"
proof -
  have d: "decrypt_atc test_ccm (s\<lparr>mac_known := True, encrypted := Some True\<rparr>)
              atc1441_encrypted_frame [0xA4, 0xC1, 0x38, 0x8D, 0x18, 0xB2]
            = (Inr (Some [0x85, 0x5E, 0xE4]),
               s\<lparr>mac_known := True, encrypted := Some True, bindkey_verified := True\<rparr>)"
    by (subst decrypt_atc_test_key)
      (simp_all add: assms test_ccm_frames atc1441_encrypted_frame_def)
  have l: "length atc1441_encrypted_frame = 8" by (simp add: atc1441_encrypted_frame_def)
  show ?thesis
    unfolding parse_atc_Inr [OF test_info_source_mac] l
    by (simp add: parse_encrypted_def d decode_atc1441_encrypted_def byte_at_def Let_def
        finish_def update_predefined_sensor_def test_info_def)
qed

lemma parse_atc_pvvx_encrypted_frame_bad_tag:
  assumes "bindkey s = Some test_bindkey"
  shows "parse_atc ''linux'' test_ccm s (test_info p) nm pvvx_encrypted_frame_bad_tag =
         (Inr False, s\<lparr>mac_known := True, encrypted := Some True\<rparr>)"
proof -
  have d: "decrypt_atc test_ccm (s\<lparr>mac_known := True, encrypted := Some True\<rparr>)
              pvvx_encrypted_frame_bad_tag [0xA4, 0xC1, 0x38, 0x8D, 0x18, 0xB2]
            = (Inr None, s\<lparr>mac_known := True, encrypted := Some True\<rparr>)"
    by (subst decrypt_atc_test_key)
      (simp_all add: assms test_ccm_frames pvvx_encrypted_frame_bad_tag_def)
  have l: "length pvvx_encrypted_frame_bad_tag = 11"
    by (simp add: pvvx_encrypted_frame_bad_tag_def)
  show ?thesis
    unfolding parse_atc_Inr [OF test_info_source_mac] l
    by (simp add: parse_encrypted_def d)
qed

text \<open>
  C1. The claim asks that every failed decryption clears \<open>bindkey_verified\<close> on the same
  call. In a session that holds the test key, the encrypted frame of the test suite is
  decrypted and sets the flag; the same frame with another last tag byte then fails the tag
  check, the call returns \<open>False\<close>, and the flag is still set: the \<open>except ValueError\<close>
  branch of \<open>_decrypt_atc\<close> returns without the assignment that the three other failure
  branches make.
\<close>

theorem failed_tag_check_keeps_bindkey_verified:
  "bindkey_verified
     (snd (parse_atc ''linux'' test_ccm (init ''linux'' (Some test_bindkey))
             (test_info pvvx_encrypted_frame) ''ATC_8D18B2'' pvvx_encrypted_frame))
   \<and> fst (parse_atc ''linux'' test_ccm
             (snd (parse_atc ''linux'' test_ccm (init ''linux'' (Some test_bindkey))
                     (test_info pvvx_encrypted_frame) ''ATC_8D18B2'' pvvx_encrypted_frame))
             (test_info pvvx_encrypted_frame_bad_tag) ''ATC_8D18B2''
             pvvx_encrypted_frame_bad_tag) = Inr False
   \<and> bindkey_verified
        (snd (parse_atc ''linux'' test_ccm
             (snd (parse_atc ''linux'' test_ccm (init ''linux'' (Some test_bindkey))
                     (test_info pvvx_encrypted_frame) ''ATC_8D18B2'' pvvx_encrypted_frame))
             (test_info pvvx_encrypted_frame_bad_tag) ''ATC_8D18B2''
             pvvx_encrypted_frame_bad_tag))"
proof -
  have k: "bindkey (init ''linux'' (Some test_bindkey)) = Some test_bindkey"
    by (simp add: init_def)
  show ?thesis
    by (simp add: parse_atc_pvvx_encrypted_frame [OF k] parse_atc_pvvx_encrypted_frame_bad_tag k)
qed

section \<open>The encrypted atc1441 format\<close>

text \<open>
  C9. A payload of 8 bytes on a platform other than \<open>darwin\<close>, whose decryption succeeds
  with the three bytes \<open>b0\<close>, \<open>b1\<close>, \<open>b2\<close>: the call returns \<open>True\<close> and stores the
  temperature \<open>b0 / 2 - 40\<close>, the humidity \<open>b1 / 2\<close> and, as battery, the low seven bits of
  \<open>b2\<close>, or 100 when they exceed 100.
\<close>

theorem parse_atc_atc1441_encrypted_values:
  assumes "sys_platform \<noteq> ''darwin''"
    and "length data = 8"
    and "source_mac_of (address info) = Inr mac"
    and "decrypt_atc aead (s\<lparr>mac_known := True, encrypted := Some True\<rparr>) data mac
           = (Inr (Some [b0, b1, b2]), s')"
  shows "parse_atc sys_platform aead s info nm data =
     (Inr True,
      s'\<lparr>sensor_values := (sensor_values s')
            (TEMPERATURE__CELSIUS \<mapsto> PyFloat (of_int (uint b0) / 2 - 40),
             HUMIDITY__PERCENTAGE \<mapsto> PyFloat (of_int (uint b1) / 2),
             BATTERY__PERCENTAGE \<mapsto> PyInt (min 100 (uint b2 mod 128))),
          title := Some (nm @ '' ('' @ address info @ '')''),
          device_name := Some (nm @ '' ('' @ address info @ '')''),
          device_sw_version := Some ''ATC (atc1441 encrypted)''\<rparr>)"
  using assms(1,2,4) unfolding parse_atc_Inr [OF assms(3)]
  by (simp add: parse_encrypted_def decode_atc1441_encrypted_def byte_at_def Let_def finish_def
      update_predefined_sensor_def uint_and_7F min_def)

text \<open>A battery byte of \<open>0x7F\<close> (127) is reported as 100.\<close>

theorem parse_atc_atc1441_encrypted_values_witness:
  "''linux'' \<noteq> ''darwin''
   \<and> length atc1441_encrypted_frame_127 = 8
   \<and> source_mac_of (address (test_info atc1441_encrypted_frame_127))
       = Inr [0xA4, 0xC1, 0x38, 0x8D, 0x18, 0xB2]
   \<and> decrypt_atc test_ccm
         ((init ''linux'' (Some test_bindkey))\<lparr>mac_known := True, encrypted := Some True\<rparr>)
         atc1441_encrypted_frame_127 [0xA4, 0xC1, 0x38, 0x8D, 0x18, 0xB2]
       = (Inr (Some [0x85, 0x5E, 0x7F]),
          (init ''linux'' (Some test_bindkey))\<lparr>encrypted := Some True, bindkey_verified := True\<rparr>)
   \<and> parse_atc ''linux'' test_ccm (init ''linux'' (Some test_bindkey))
         (test_info atc1441_encrypted_frame_127) ''ATC_8D18B2'' atc1441_encrypted_frame_127 =
       (Inr True,
        (init ''linux'' (Some test_bindkey))
          \<lparr>encrypted := Some True, bindkey_verified := True,
           sensor_values :=
             [TEMPERATURE__CELSIUS \<mapsto> PyFloat (265 / 10),
              HUMIDITY__PERCENTAGE \<mapsto> PyFloat 47,
              BATTERY__PERCENTAGE \<mapsto> PyInt 100],
           title := Some ''ATC_8D18B2 (A4:C1:38:8D:18:B2)'',
           device_name := Some ''ATC_8D18B2 (A4:C1:38:8D:18:B2)'',
           device_sw_version := Some ''ATC (atc1441 encrypted)''\<rparr>)"
proof -
  have p: "''linux'' \<noteq> ''darwin''" by simp
  have l: "length atc1441_encrypted_frame_127 = 8" by (simp add: atc1441_encrypted_frame_127_def)
  have d: "decrypt_atc test_ccm
         ((init ''linux'' (Some test_bindkey))\<lparr>mac_known := True, encrypted := Some True\<rparr>)
         atc1441_encrypted_frame_127 [0xA4, 0xC1, 0x38, 0x8D, 0x18, 0xB2]
       = (Inr (Some [0x85, 0x5E, 0x7F]),
          (init ''linux'' (Some test_bindkey))\<lparr>encrypted := Some True, bindkey_verified := True\<rparr>)"
    by (subst decrypt_atc_test_key)
      (simp_all add: init_def test_ccm_frames atc1441_encrypted_frame_127_def)
  from parse_atc_atc1441_encrypted_values [OF p l test_info_source_mac d,
      where nm = "''ATC_8D18B2''"]
  have r: "parse_atc ''linux'' test_ccm (init ''linux'' (Some test_bindkey))
         (test_info atc1441_encrypted_frame_127) ''ATC_8D18B2'' atc1441_encrypted_frame_127 =
       (Inr True,
        (init ''linux'' (Some test_bindkey))
          \<lparr>encrypted := Some True, bindkey_verified := True,
           sensor_values :=
             [TEMPERATURE__CELSIUS \<mapsto> PyFloat (265 / 10),
              HUMIDITY__PERCENTAGE \<mapsto> PyFloat 47,
              BATTERY__PERCENTAGE \<mapsto> PyInt 100],
           title := Some ''ATC_8D18B2 (A4:C1:38:8D:18:B2)'',
           device_name := Some ''ATC_8D18B2 (A4:C1:38:8D:18:B2)'',
           device_sw_version := Some ''ATC (atc1441 encrypted)''\<rparr>)"
    by (simp add: init_def test_info_def)
  from p l d r test_info_source_mac [of atc1441_encrypted_frame_127] show ?thesis by blast
qed

section \<open>The session across calls\<close>

text \<open>\<open>mac_known\<close> is set by \<open>__init__\<close> to whether the platform is not \<open>darwin\<close>, and
  no call of \<open>_parse_atc\<close> on that platform changes it.\<close>

lemma init_mac_known: "mac_known (init sys_platform key) = (sys_platform \<noteq> ''darwin'')"
  by (simp add: init_def)

lemma parse_pvvx_mac_known:
  "mac_known (snd (parse_pvvx sys_platform s info nm data m)) = mac_known s"
  by (auto simp: parse_pvvx_def Let_def finish_def update_predefined_sensor_def
      split: option.splits)

lemma parse_atc1441_mac_known:
  "mac_known (snd (parse_atc1441 sys_platform s info nm data m)) = mac_known s"
  by (auto simp: parse_atc1441_def Let_def finish_def update_predefined_sensor_def
      split: option.splits)

lemma decode_pvvx_encrypted_mac_known:
  "mac_known (snd (decode_pvvx_encrypted s info nm p)) = mac_known s"
  by (auto simp: decode_pvvx_encrypted_def Let_def finish_def update_predefined_sensor_def
      split: option.splits)

lemma decode_atc1441_encrypted_mac_known:
  "mac_known (snd (decode_atc1441_encrypted s info nm p)) = mac_known s"
  by (auto simp: decode_atc1441_encrypted_def Let_def finish_def update_predefined_sensor_def
      split: sum.splits)

lemma parse_encrypted_mac_known:
  assumes "\<And>s3 p. mac_known (snd (decode s3 info nm p)) = mac_known s3"
  shows "mac_known (snd (parse_encrypted decode sys_platform aead s info nm data m))
           = (if sys_platform = ''darwin'' then mac_known s else True)"
proof -
  obtain r s3 where d: "decrypt_atc aead (s\<lparr>mac_known := True, encrypted := Some True\<rparr>) data m = (r, s3)"
    by (cases "decrypt_atc aead (s\<lparr>mac_known := True, encrypted := Some True\<rparr>) data m")
  from decrypt_atc_cases [OF d] have "mac_known s3" by auto
  with d assms show ?thesis
    by (auto simp: parse_encrypted_def split: sum.splits option.splits)
qed

lemma parse_atc_mac_known:
  assumes "mac_known s = (sys_platform \<noteq> ''darwin'')"
  shows "mac_known (snd (parse_atc sys_platform aead s info nm data)) = (sys_platform \<noteq> ''darwin'')"
proof (cases "source_mac_of (address info)")
  case (Inl e)
  with assms show ?thesis by (simp add: parse_atc_Inl)
next
  case (Inr m)
  from assms show ?thesis
    unfolding parse_atc_Inr [OF Inr]
    by (simp add: parse_pvvx_mac_known parse_atc1441_mac_known parse_encrypted_mac_known
        decode_pvvx_encrypted_mac_known decode_atc1441_encrypted_mac_known)
qed

lemma parse_atc_False_cases:
  assumes "parse_atc sys_platform aead s info nm data = (Inr False, s')"
  shows "s' = s
       \<or> (sys_platform \<noteq> ''darwin'' \<and>
            (s' = s\<lparr>mac_known := True, encrypted := Some True\<rparr>
           \<or> s' = s\<lparr>mac_known := True, encrypted := Some True, bindkey_verified := False\<rparr>))"
proof -
  from assms obtain m where m: "source_mac_of (address info) = Inr m"
    by (cases "source_mac_of (address info)") (auto simp: parse_atc_Inl)
  note eq = assms [unfolded parse_atc_Inr [OF m]]
  consider (a) "length data = 15" | (b) "length data = 13" | (c) "length data = 11"
    | (d) "length data = 8" | (e) "length data \<notin> {15, 13, 11, 8}" by auto
  then show ?thesis
  proof cases
    case a
    with eq show ?thesis by (auto dest: parse_pvvx_False)
  next
    case b
    with eq show ?thesis by (auto dest: parse_atc1441_False)
  next
    case c
    with eq have
      "parse_encrypted decode_pvvx_encrypted sys_platform aead s info nm data m = (Inr False, s')"
      by simp
    from parse_encrypted_False [OF this decode_pvvx_encrypted_not_False]
    show ?thesis by auto
  next
    case d
    with eq have
      "parse_encrypted decode_atc1441_encrypted sys_platform aead s info nm data m = (Inr False, s')"
      by simp
    from parse_encrypted_False [OF this decode_atc1441_encrypted_not_False]
    show ?thesis by auto
  next
    case e
    with eq show ?thesis by auto
  qed
qed

text \<open>
  C2, as stated. The claim asks that a failing call change nothing but \<open>bindkey_verified\<close>. The two
  encrypted branches mark the session before they decrypt, so a call that fails in
  \<open>_decrypt_atc\<close> has already changed it: in a new session without a key, the encrypted
  frame of the test suite is refused and the attribute \<open>encrypted\<close> has gone from absent
  to \<open>True\<close>.
\<close>

theorem failing_call_sets_encrypted:
  "fst (parse_atc ''linux'' test_ccm (init ''linux'' None) (test_info pvvx_encrypted_frame)
          ''ATC_8D18B2'' pvvx_encrypted_frame) = Inr False
   \<and> encrypted (init ''linux'' None) = None
   \<and> encrypted (snd (parse_atc ''linux'' test_ccm (init ''linux'' None)
                       (test_info pvvx_encrypted_frame) ''ATC_8D18B2'' pvvx_encrypted_frame))
       = Some True"
proof -
  have "parse_atc ''linux'' test_ccm (init ''linux'' None) (test_info pvvx_encrypted_frame)
         ''ATC_8D18B2'' pvvx_encrypted_frame =
       (Inr False, (init ''linux'' None)\<lparr>encrypted := Some True\<rparr>)"
    by (simp add: parse_atc_Inr [OF test_info_source_mac] parse_encrypted_def decrypt_atc_def
        init_def pvvx_encrypted_frame_def)
  then show ?thesis by (simp add: init_def)
qed

text \<open>
  C2, amended. In a session constructed on the platform it runs on, a call of
  \<open>_parse_atc\<close> that returns \<open>False\<close> leaves \<open>mac_known\<close>, \<open>pending\<close>,
  \<open>last_service_info\<close>, \<open>bindkey\<close> and everything that the base class stores as they
  were; \<open>bindkey_verified\<close> is as it was or false; and the two attributes that can mark an
  encrypted payload, \<open>is_encrypted\<close> and \<open>encrypted\<close>, are as they were or true.
\<close>

theorem parse_atc_failure_changes:
  assumes "mac_known s = (sys_platform \<noteq> ''darwin'')"
    and "parse_atc sys_platform aead s info nm data = (Inr False, s')"
  shows "mac_known s' = mac_known s
       \<and> pending s' = pending s \<and> last_service_info s' = last_service_info s
       \<and> bindkey s' = bindkey s
       \<and> (bindkey_verified s' = bindkey_verified s \<or> \<not> bindkey_verified s')
       \<and> (is_encrypted s' = is_encrypted s \<or> is_encrypted s')
       \<and> (encrypted s' = encrypted s \<or> encrypted s' = Some True)
       \<and> sensor_values s' = sensor_values s \<and> title s' = title s
       \<and> device_name s' = device_name s \<and> device_sw_version s' = device_sw_version s
       \<and> device_manufacturer s' = device_manufacturer s \<and> device_type s' = device_type s"
  using parse_atc_False_cases [OF assms(2)] assms(1) by auto

theorem parse_atc_failure_changes_witness:
  "mac_known ((init ''linux'' (Some [0x01, 0x02]))\<lparr>bindkey_verified := True\<rparr>)
     = (''linux'' \<noteq> ''darwin'')
   \<and> parse_atc ''linux'' test_ccm ((init ''linux'' (Some [0x01, 0x02]))\<lparr>bindkey_verified := True\<rparr>)
         (test_info pvvx_encrypted_frame) ''ATC_8D18B2'' pvvx_encrypted_frame =
       (Inr False, (init ''linux'' (Some [0x01, 0x02]))\<lparr>encrypted := Some True\<rparr>)
   \<and> mac_known ((init ''linux'' (Some [0x01, 0x02]))\<lparr>encrypted := Some True\<rparr>)
       = mac_known ((init ''linux'' (Some [0x01, 0x02]))\<lparr>bindkey_verified := True\<rparr>)
   \<and> pending ((init ''linux'' (Some [0x01, 0x02]))\<lparr>encrypted := Some True\<rparr>)
       = pending ((init ''linux'' (Some [0x01, 0x02]))\<lparr>bindkey_verified := True\<rparr>)
   \<and> last_service_info ((init ''linux'' (Some [0x01, 0x02]))\<lparr>encrypted := Some True\<rparr>)
       = last_service_info ((init ''linux'' (Some [0x01, 0x02]))\<lparr>bindkey_verified := True\<rparr>)
   \<and> bindkey ((init ''linux'' (Some [0x01, 0x02]))\<lparr>encrypted := Some True\<rparr>)
       = bindkey ((init ''linux'' (Some [0x01, 0x02]))\<lparr>bindkey_verified := True\<rparr>)
   \<and> \<not> bindkey_verified ((init ''linux'' (Some [0x01, 0x02]))\<lparr>encrypted := Some True\<rparr>)
   \<and> sensor_values ((init ''linux'' (Some [0x01, 0x02]))\<lparr>encrypted := Some True\<rparr>)
       = sensor_values ((init ''linux'' (Some [0x01, 0x02]))\<lparr>bindkey_verified := True\<rparr>)"
proof -
  have m: "mac_known ((init ''linux'' (Some [0x01, 0x02]))\<lparr>bindkey_verified := True\<rparr>)
     = (''linux'' \<noteq> ''darwin'')"
    by (simp add: init_def)
  have e: "parse_atc ''linux'' test_ccm ((init ''linux'' (Some [0x01, 0x02]))\<lparr>bindkey_verified := True\<rparr>)
         (test_info pvvx_encrypted_frame) ''ATC_8D18B2'' pvvx_encrypted_frame =
       (Inr False, (init ''linux'' (Some [0x01, 0x02]))\<lparr>encrypted := Some True\<rparr>)"
    by (simp add: parse_atc_Inr [OF test_info_source_mac] parse_encrypted_def decrypt_atc_def
        init_def pvvx_encrypted_frame_def)
  have b: "\<not> bindkey_verified ((init ''linux'' (Some [0x01, 0x02]))\<lparr>encrypted := Some True\<rparr>)"
    by (simp add: init_def)
  from parse_atc_failure_changes [OF m e] m e b show ?thesis by blast
qed

text \<open>The same through \<open>_start_update\<close>, for an advertisement that carries one
  payload: the advertisement does not become the \<open>last_service_info\<close>.\<close>

lemma start_update_failure_frame:
  assumes "mac_known s = (sys_platform \<noteq> ''darwin'')"
    and "service_data info = [(uuid, data)]"
    and "parse_atc sys_platform aead
           (s\<lparr>device_manufacturer := Some ''ATC'', device_type := Some ''ATC sensor''\<rparr>)
           info (name info) data = (Inr False, s')"
  shows "start_update sys_platform aead s info = (Inr (), s')
       \<and> mac_known s' = mac_known s
       \<and> pending s' = pending s \<and> last_service_info s' = last_service_info s
       \<and> bindkey s' = bindkey s
       \<and> (bindkey_verified s' = bindkey_verified s \<or> \<not> bindkey_verified s')"
proof -
  from assms(2,3) have "start_update sys_platform aead s info = (Inr (), s')"
    by (simp add: start_update_def)
  with parse_atc_False_cases [OF assms(3)] assms(1) show ?thesis by auto
qed

text \<open>A session in which a decryption failed for want of a key decodes the same frame
  once the key is supplied.\<close>

lemma session_usable_after_missing_key:
  "fst (parse_atc ''linux'' test_ccm
          ((snd (parse_atc ''linux'' test_ccm (init ''linux'' None)
                   (test_info pvvx_encrypted_frame) ''ATC_8D18B2'' pvvx_encrypted_frame))
             \<lparr>bindkey := Some test_bindkey\<rparr>)
          (test_info pvvx_encrypted_frame) ''ATC_8D18B2'' pvvx_encrypted_frame) = Inr True"
  by (simp add: parse_atc_pvvx_encrypted_frame)

text \<open>\<open>is_encrypted\<close> is assigned by \<open>__init__\<close> and by nothing else: no call changes it.\<close>

lemma parse_pvvx_is_encrypted:
  "is_encrypted (snd (parse_pvvx sys_platform s info nm data m)) = is_encrypted s"
  by (auto simp: parse_pvvx_def Let_def finish_def update_predefined_sensor_def
      split: option.splits)

lemma parse_atc1441_is_encrypted:
  "is_encrypted (snd (parse_atc1441 sys_platform s info nm data m)) = is_encrypted s"
  by (auto simp: parse_atc1441_def Let_def finish_def update_predefined_sensor_def
      split: option.splits)

lemma decode_pvvx_encrypted_is_encrypted:
  "is_encrypted (snd (decode_pvvx_encrypted s info nm p)) = is_encrypted s"
  by (auto simp: decode_pvvx_encrypted_def Let_def finish_def update_predefined_sensor_def
      split: option.splits)

lemma decode_atc1441_encrypted_is_encrypted:
  "is_encrypted (snd (decode_atc1441_encrypted s info nm p)) = is_encrypted s"
  by (auto simp: decode_atc1441_encrypted_def Let_def finish_def update_predefined_sensor_def
      split: sum.splits)

lemma parse_encrypted_is_encrypted:
  assumes "\<And>s3 p. is_encrypted (snd (decode s3 info nm p)) = is_encrypted s3"
  shows "is_encrypted (snd (parse_encrypted decode sys_platform aead s info nm data m))
           = is_encrypted s"
proof -
  obtain r s3 where d: "decrypt_atc aead (s\<lparr>mac_known := True, encrypted := Some True\<rparr>) data m = (r, s3)"
    by (cases "decrypt_atc aead (s\<lparr>mac_known := True, encrypted := Some True\<rparr>) data m")
  from decrypt_atc_cases [OF d] have "is_encrypted s3 = is_encrypted s" by auto
  with d assms show ?thesis
    by (auto simp: parse_encrypted_def Let_def split: sum.splits option.splits)
qed

lemma parse_atc_is_encrypted:
  "is_encrypted (snd (parse_atc sys_platform aead s info nm data)) = is_encrypted s"
proof (cases "source_mac_of (address info)")
  case (Inl e)
  then show ?thesis by (simp add: parse_atc_Inl)
next
  case (Inr m)
  show ?thesis
    unfolding parse_atc_Inr [OF Inr]
    by (simp add: parse_pvvx_is_encrypted parse_atc1441_is_encrypted
        parse_encrypted_is_encrypted decode_pvvx_encrypted_is_encrypted
        decode_atc1441_encrypted_is_encrypted)
qed

lemma parse_all_is_encrypted:
  "is_encrypted (snd (parse_all sys_platform aead s info sd)) = is_encrypted s"
proof (induction sd arbitrary: s)
  case Nil
  show ?case by simp
next
  case (Cons x sd)
  obtain uuid data where x: "x = (uuid, data)" by (cases x)
  obtain r s1 where p: "parse_atc sys_platform aead s info (name info) data = (r, s1)"
    by (cases "parse_atc sys_platform aead s info (name info) data")
  from parse_atc_is_encrypted [of sys_platform aead s info "name info" data] p
  have "is_encrypted s1 = is_encrypted s" by simp
  with Cons.IH p x show ?case
    by (cases r) (simp_all split: if_splits)
qed

lemma start_update_is_encrypted:
  "is_encrypted (snd (start_update sys_platform aead s info)) = is_encrypted s"
  by (simp add: start_update_def parse_all_is_encrypted)

lemma start_update_new_session_is_encrypted:
  "is_encrypted (snd (start_update sys_platform aead (init sys_platform key) info)) = False"
  by (simp add: start_update_is_encrypted) (simp add: init_def)

text \<open>
  C3. The claim asks that \<open>is_encrypted\<close> be true after an encrypted payload was processed.
  In a new session that holds the test key, the encrypted frame of the test suite is decoded
  (the call returns \<open>True\<close>), and \<open>is_encrypted\<close> is false afterwards: the assignment in
  \<open>_parse_atc\<close> is to the attribute \<open>encrypted\<close>.
\<close>

theorem encrypted_payload_leaves_is_encrypted_unset:
  "fst (parse_atc ''linux'' test_ccm (init ''linux'' (Some test_bindkey))
          (test_info pvvx_encrypted_frame) ''ATC_8D18B2'' pvvx_encrypted_frame) = Inr True
   \<and> is_encrypted
        (snd (parse_atc ''linux'' test_ccm (init ''linux'' (Some test_bindkey))
                (test_info pvvx_encrypted_frame) ''ATC_8D18B2'' pvvx_encrypted_frame)) = False
   \<and> encrypted
        (snd (parse_atc ''linux'' test_ccm (init ''linux'' (Some test_bindkey))
                (test_info pvvx_encrypted_frame) ''ATC_8D18B2'' pvvx_encrypted_frame)) = Some True"
proof -
  have k: "bindkey (init ''linux'' (Some test_bindkey)) = Some test_bindkey"
    by (simp add: init_def)
  show ?thesis
    by (simp add: parse_atc_pvvx_encrypted_frame [OF k]) (simp add: init_def)
qed

section \<open>The source address\<close>

text \<open>
  C4. The claim asks that no advertisement makes the decoder raise. The advertisement of
  \<open>test_atc1441_no_encryption\<close> with its address written \<open>A4-C1-38-8D-18-B2\<close> does: the
  address has 17 characters, so it is not replaced by the all-zero address, the dashes are
  not removed, and \<open>bytes.fromhex\<close> raises \<open>ValueError\<close>, which neither \<open>_parse_atc\<close> nor
  \<open>_start_update\<close> catches.
\<close>

theorem dash_delimited_address_raises:
  "parse_atc ''linux'' test_ccm (init ''linux'' None) (dashed_info atc1441_frame) ''ATC_8D18B2''
     atc1441_frame = (Inl ValueError, init ''linux'' None)
   \<and> fst (start_update ''linux'' test_ccm (init ''linux'' None) (dashed_info atc1441_frame))
       = Inl ValueError"
proof -
  have a: "source_mac_of (address (dashed_info atc1441_frame)) = Inl ValueError"
    by (simp add: dashed_info_def source_mac_of_dashed_address)
  have "parse_all ''linux'' test_ccm s (dashed_info atc1441_frame)
          (service_data (dashed_info atc1441_frame)) = (Inl ValueError, s)" for s
    by (simp add: dashed_info_def parse_atc_Inl [OF a [unfolded dashed_info_def]])
  then show ?thesis
    by (simp add: start_update_def parse_atc_Inl [OF a])
qed

text \<open>An address of fewer than three characters raises \<open>IndexError\<close>, and a platform
  identifier of another length than 17 whose third character is not a colon is replaced by
  the all-zero address.\<close>

lemma source_mac_of_short: "length addr < 3 \<Longrightarrow> source_mac_of addr = Inl IndexError"
  by (simp add: source_mac_of_def)

lemma source_mac_of_uuid:
  "source_mac_of ''FDB2B6A1-5C4E-4C6F-9D0B-8F2A1E3C4D5E'' = Inr [0, 0, 0, 0, 0, 0]"
  by code_simp

end
